theory Spec2Isabelle
  imports Main "HOL-Library.Word" "HOL-Library.AList" "HOL-Library.Char_ord" "HOL-Library.List_Lexorder"
begin

section \<open>Outcomes of fallible code\<close>

text \<open>
  A Go function either panics (the goroutine unwinds; nothing the function would have
  written afterwards is observable) or returns. A returned \<^verbatim>\<open>error\<close> is part of the
  returned value.
\<close>

datatype 'a outcome = Panic string | Ok 'a

section \<open>Owner/agent scheduling protocol (cdc/scheduler/agent.go)\<close>

text \<open>
  \<^verbatim>\<open>model.TableID\<close> and \<^verbatim>\<open>OwnerRev\<close> are \<^verbatim>\<open>int64\<close>: 64-bit words read as signed
  numbers (\<open>sint\<close>, \<open><s\<close>). \<^verbatim>\<open>model.CaptureID\<close> is a string.
\<close>

type_synonym TableID = "64 word"
type_synonym CaptureID = string

datatype agentOperationStatus = operationReceived | operationProcessed | operationFinished

record agentOperation =
  TableID :: TableID
  IsDelete :: bool
  status :: agentOperationStatus

record ownerInfo =
  OwnerCaptureID :: CaptureID
  OwnerRev :: "64 word"

text \<open>
  The agent's own state. \<open>pendingOps\<close> is the deque (front first); \<open>tableOperations\<close> is
  the Go map from table ID to the operation in flight, kept as an association list whose
  order stands for the map's iteration order. The executor and the messenger are
  interfaces implemented elsewhere: their answers are arguments of the functions below.
\<close>

record BaseAgent =
  pendingOps :: "agentOperation list"
  tableOperations :: "(TableID \<times> agentOperation) list"
  needSyncNow :: bool
  ownerInfo :: ownerInfo
  ownerHasChanged :: bool

definition NewBaseAgent :: BaseAgent where
  "NewBaseAgent =
     \<lparr>pendingOps = [], tableOperations = [], needSyncNow = True,
      ownerInfo = \<lparr>OwnerCaptureID = [], OwnerRev = 0\<rparr>, ownerHasChanged = False\<rparr>"

definition updateOwnerInfo :: "BaseAgent \<Rightarrow> CaptureID \<Rightarrow> 64 word \<Rightarrow> (bool \<times> BaseAgent) outcome" where
  "updateOwnerInfo a ownerCaptureID ownerRev =
     (if OwnerRev (ownerInfo a) <s ownerRev then
        Ok (True,
            a\<lparr>ownerInfo := \<lparr>OwnerCaptureID = ownerCaptureID, OwnerRev = ownerRev\<rparr>,
              ownerHasChanged := True,
              pendingOps := []\<rparr>)
      else if ownerRev <s OwnerRev (ownerInfo a) then Ok (False, a)
      else if OwnerCaptureID (ownerInfo a) \<noteq> ownerCaptureID then
        Panic ''owner IDs do not match''
      else Ok (True, a))"

text \<open>
  Modelled from the spec: \<^verbatim>\<open>util.SortTableIDs\<close> (package cdc/scheduler/util, not among the
  sources) sorts a slice of table IDs in place, ascending by their \<^verbatim>\<open>int64\<close> value.
\<close>

definition SortTableIDs :: "TableID list \<Rightarrow> TableID list" where
  "SortTableIDs ids = sort_key sint ids"

text \<open>
  \<^verbatim>\<open>sendSync\<close> first builds three slices: it ranges over \<open>tableOperations\<close> and appends
  each operation's \<open>TableID\<close> to \<open>adding\<close> or to \<open>removing\<close> by its \<open>IsDelete\<close> flag alone,
  then ranges over the executor's \<^verbatim>\<open>GetAllCurrentTables()\<close> and keeps the IDs that are not a
  key of \<open>tableOperations\<close>; it sorts the three slices. The triple is in the order of
  the arguments of \<^verbatim>\<open>SyncTaskStatuses\<close>: running, adding, removing.
\<close>

definition syncPayload :: "BaseAgent \<Rightarrow> TableID list \<Rightarrow> TableID list \<times> TableID list \<times> TableID list" where
  "syncPayload a currentTables =
     (let adding = map TableID (filter (\<lambda>op. \<not> IsDelete op) (map snd (tableOperations a)));
          removing = map TableID (filter (\<lambda>op. IsDelete op) (map snd (tableOperations a)));
          running = filter (\<lambda>tableID. map_of (tableOperations a) tableID = None) currentTables
      in (SortTableIDs running, SortTableIDs adding, SortTableIDs removing))"

text \<open>
  The messenger's \<^verbatim>\<open>SyncTaskStatuses\<close> answers \<open>(done, err)\<close>; \<^verbatim>\<open>sendSync\<close> returns
  \<open>(False, err)\<close> on an error and \<open>(done, nil)\<close> otherwise.
\<close>

definition sendSync ::
  "(TableID list \<Rightarrow> TableID list \<Rightarrow> TableID list \<Rightarrow> bool \<times> string option) \<Rightarrow>
   BaseAgent \<Rightarrow> TableID list \<Rightarrow> bool \<times> string option" where
  "sendSync SyncTaskStatuses a currentTables =
     (case syncPayload a currentTables of
        (running, adding, removing) \<Rightarrow>
          (case SyncTaskStatuses running adding removing of
             (done, Some err) \<Rightarrow> (False, Some err)
           | (done, None) \<Rightarrow> (done, None)))"

section \<open>Retrying KV client (pkg/etcd/client.go)\<close>

text \<open>
  The wrapped \<^verbatim>\<open>clientv3.Client\<close> is a remote service: its state is \<open>'s\<close>, and its
  \<^verbatim>\<open>Delete\<close> is a function of that state which answers \<open>(response, error)\<close> and leaves a
  new state. \<open>metrics\<close> is the Go map from operation name to its Prometheus counter, a
  counter being the number it holds.
\<close>

definition EtcdDel :: string where
  "EtcdDel = ''Del''"

record 's Client =
  cli :: 's
  metrics :: "string \<rightharpoonup> nat"

definition Delete ::
  "('s \<Rightarrow> string \<Rightarrow> 'o \<Rightarrow> ('r \<times> 'e option) \<times> 's) \<Rightarrow>
   's Client \<Rightarrow> string \<Rightarrow> 'o \<Rightarrow> ('r \<times> 'e option) \<times> 's Client" where
  "Delete cliDelete c key opts =
     (let c1 = (case metrics c EtcdDel of
                  Some metric \<Rightarrow> c\<lparr>metrics := (metrics c)(EtcdDel \<mapsto> metric + 1)\<rparr>
                | None \<Rightarrow> c)
      in case cliDelete (cli c1) key opts of
           (res, cli') \<Rightarrow> (res, c1\<lparr>cli := cli'\<rparr>))"

text \<open>
  To count invocations, a service is paired with a call counter: \<open>counted d\<close> behaves as
  \<open>d\<close> and adds one to the counter at every call.
\<close>

definition counted ::
  "('s \<Rightarrow> string \<Rightarrow> 'o \<Rightarrow> ('r \<times> 'e option) \<times> 's) \<Rightarrow>
   (nat \<times> 's) \<Rightarrow> string \<Rightarrow> 'o \<Rightarrow> ('r \<times> 'e option) \<times> (nat \<times> 's)" where
  "counted d ns key opts =
     (case d (snd ns) key opts of (res, s') \<Rightarrow> (res, (Suc (fst ns), s')))"

section \<open>Storage actor (cdc/sorter/leveldb, the file of \<^verbatim>\<open>DBActor\<close>)\<close>

text \<open>
  Go's \<^verbatim>\<open>int\<close> is a 64-bit word read as a signed number; \<^verbatim>\<open>+\<close> and \<^verbatim>\<open>*\<close> wrap.
  The KV engine (\<^verbatim>\<open>db.DB\<close>, \<^verbatim>\<open>db.Batch\<close> of package pkg/db) and the compaction
  scheduler are implemented outside the sources: the actor is modelled over any
  implementation, given as a record of functions over the batch type \<open>'b\<close>.
  \<open>wb_len\<close> and \<open>wb_cap\<close> are \<^verbatim>\<open>len(wb.Repr())\<close> and \<^verbatim>\<open>cap(wb.Repr())\<close>. The database is
  the list of the batches committed to it, and \<open>wb_Commit\<close> answers the engine's error,
  if any, for a commit of a batch to that database.
\<close>

record 'b engine =
  db_Batch :: "64 word \<Rightarrow> 'b"
  wb_Put :: "'b \<Rightarrow> string \<Rightarrow> 8 word list \<Rightarrow> 'b"
  wb_Delete :: "'b \<Rightarrow> string \<Rightarrow> 'b"
  wb_Commit :: "'b list \<Rightarrow> 'b \<Rightarrow> string option"
  wb_Reset :: "'b \<Rightarrow> 'b"
  wb_len :: "'b \<Rightarrow> 64 word"
  wb_cap :: "'b \<Rightarrow> 64 word"
  maybeCompact :: "64 word \<Rightarrow> 64 word \<Rightarrow> bool"


record IterRequest =
  Range :: "8 word list \<times> 8 word list"
  ResolvedTs :: "64 word"
  IterCh :: nat

record Task =
  UID :: "32 word"
  TableID_t :: "64 word"
  Events :: "(string \<times> 8 word list) list"
  IterReq :: "IterRequest option"

datatype Message = TypeTick | TypeSorterTask Task | TypeStop | TypeUnknown

type_synonym tableKey = "32 word \<times> 64 word"

record iterItem =
  key_i :: tableKey
  req_i :: IterRequest

record iterQueue =
  List :: "iterItem list"
  tables :: "tableKey set"

text \<open>\<^verbatim>\<open>semaphore.Weighted\<close>, used through \<^verbatim>\<open>TryAcquire(1)\<close> and \<^verbatim>\<open>Release(1)\<close> only.\<close>

record Weighted =
  sem_size :: "64 word"
  sem_cur :: "64 word"

text \<open>What the actor sends on a request's \<^verbatim>\<open>IterCh\<close>: an iterator over the database as
  it is at that moment, with the request's resolved-ts.\<close>

record 'b LimitedIterator =
  it_ch :: nat
  it_range :: "8 word list \<times> 8 word list"
  it_db :: "'b list"
  it_ResolvedTs :: "64 word"

record 'b DBActor =
  id_a :: "64 word"
  db :: "'b list"
  wb :: 'b
  wbSize :: "64 word"
  wbCap :: "64 word"
  iterSem :: Weighted
  iterQ :: iterQueue
  deleteCount :: "64 word"
  closed :: bool
  sent :: "'b LimitedIterator list"

definition push :: "iterQueue \<Rightarrow> 32 word \<Rightarrow> 64 word \<Rightarrow> IterRequest \<Rightarrow> iterQueue outcome" where
  "push q uid tableID req =
     (if (uid, tableID) \<in> tables q then
        Panic ''A table should not issue two concurrent iterator requests''
      else Ok (q\<lparr>tables := insert (uid, tableID) (tables q),
                 List := List q @ [\<lparr>key_i = (uid, tableID), req_i = req\<rparr>]\<rparr>))"

definition pop :: "iterQueue \<Rightarrow> IterRequest option \<times> iterQueue" where
  "pop q =
     (case List q of
        [] \<Rightarrow> (None, q)
      | item # rest \<Rightarrow> (Some (req_i item), q\<lparr>List := rest, tables := tables q - {key_i item}\<rparr>))"


definition close :: "'b DBActor \<Rightarrow> 'b DBActor" where
  "close ldb = ldb\<lparr>closed := True\<rparr>"

definition maybeWrite :: "'b engine \<Rightarrow> 'b DBActor \<Rightarrow> bool \<Rightarrow> string option \<times> 'b DBActor" where
  "maybeWrite E ldb force =
     (let bytes = wb_len E (wb ldb) in
      if wbSize ldb \<le>s bytes \<or> (force \<and> bytes \<noteq> 0) then
        (case wb_Commit E (db ldb) (wb ldb) of
           Some err \<Rightarrow> (Some (''ErrLevelDBSorterError: '' @ err), ldb)
         | None \<Rightarrow>
             (let ldb1 = ldb\<lparr>db := db ldb @ [wb ldb]\<rparr>;
                  ldb2 = (if wb_cap E (wb ldb1) \<le>s wbCap ldb1
                          then ldb1\<lparr>wb := wb_Reset E (wb ldb1)\<rparr>
                          else ldb1\<lparr>wb := db_Batch E (wbCap ldb1)\<rparr>);
                  ldb3 = (if maybeCompact E (id_a ldb2) (deleteCount ldb2)
                          then ldb2\<lparr>deleteCount := 0\<rparr>
                          else ldb2)
              in (None, ldb3)))
      else (None, ldb))"

text \<open>The body of the loop over a task's events, before its \<^verbatim>\<open>maybeWrite(false)\<close>.\<close>

definition applyEvent :: "'b engine \<Rightarrow> 'b DBActor \<Rightarrow> string \<times> 8 word list \<Rightarrow> 'b DBActor" where
  "applyEvent E ldb kv =
     (case kv of (k, v) \<Rightarrow>
        if length v \<noteq> 0 then ldb\<lparr>wb := wb_Put E (wb ldb) k v\<rparr>
        else ldb\<lparr>wb := wb_Delete E (wb ldb) k, deleteCount := deleteCount ldb + 1\<rparr>)"

text \<open>\<^verbatim>\<open>task.Events\<close> is a Go map; the list is the order in which the loop meets it.\<close>

fun handleEvents :: "'b engine \<Rightarrow> 'b DBActor \<Rightarrow> (string \<times> 8 word list) list \<Rightarrow> 'b DBActor outcome" where
  "handleEvents E ldb [] = Ok ldb"
| "handleEvents E ldb (kv # evs) =
     (case maybeWrite E (applyEvent E ldb kv) False of
        (Some err, ldb') \<Rightarrow> Panic ''db error''
      | (None, ldb') \<Rightarrow> handleEvents E ldb' evs)"

text \<open>
  \<^verbatim>\<open>acquireIterators\<close>: while the semaphore grants a permit and the queue holds a
  request, open an iterator and send it. With an empty queue the permit just taken is
  released again.
\<close>

function acquireIterators :: "'b DBActor \<Rightarrow> 'b DBActor" where
  "acquireIterators ldb =
     (if \<not> (1 \<le>s sem_size (iterSem ldb) - sem_cur (iterSem ldb)) then ldb
      else case pop (iterQ ldb) of
             (None, q) \<Rightarrow> ldb
           | (Some req, q) \<Rightarrow>
               acquireIterators
                 (ldb\<lparr>iterSem := (iterSem ldb)\<lparr>sem_cur := sem_cur (iterSem ldb) + 1\<rparr>,
                      iterQ := q,
                      sent := sent ldb @
                        [\<lparr>it_ch = IterCh req, it_range = Range req, it_db = db ldb,
                          it_ResolvedTs = ResolvedTs req\<rparr>]\<rparr>))"
  by pat_completeness auto
termination
  by (relation "measure (\<lambda>ldb. length (List (iterQ ldb)))")
    (auto simp: pop_def split: list.splits)

text \<open>
  The loop of \<^verbatim>\<open>Poll\<close> over its messages. It answers \<open>None\<close> when a stop message ended
  the poll (the actor is closed and \<^verbatim>\<open>Poll\<close> returns false at once), and otherwise whether
  a task asked for an iterator.
\<close>

fun pollTasks :: "'b engine \<Rightarrow> 'b DBActor \<Rightarrow> bool \<Rightarrow> Message list \<Rightarrow> (bool option \<times> 'b DBActor) outcome" where
  "pollTasks E ldb requireIter [] = Ok (Some requireIter, ldb)"
| "pollTasks E ldb requireIter (TypeTick # msgs) = pollTasks E ldb requireIter msgs"
| "pollTasks E ldb requireIter (TypeStop # msgs) = Ok (None, close ldb)"
| "pollTasks E ldb requireIter (TypeUnknown # msgs) = Panic ''unexpected message''"
| "pollTasks E ldb requireIter (TypeSorterTask task # msgs) =
     (case handleEvents E ldb (Events task) of
        Panic m \<Rightarrow> Panic m
      | Ok ldb1 \<Rightarrow>
          (case IterReq task of
             None \<Rightarrow> pollTasks E ldb1 requireIter msgs
           | Some req \<Rightarrow>
               (case push (iterQ ldb1) (UID task) (TableID_t task) req of
                  Panic m \<Rightarrow> Panic m
                | Ok q \<Rightarrow> pollTasks E (ldb1\<lparr>iterQ := q\<rparr>) True msgs)))"

definition Poll :: "'b engine \<Rightarrow> 'b DBActor \<Rightarrow> bool \<Rightarrow> Message list \<Rightarrow> (bool \<times> 'b DBActor) outcome" where
  "Poll E ldb ctxDone tasks =
     (if ctxDone then Ok (False, close ldb)
      else case pollTasks E ldb False tasks of
             Panic m \<Rightarrow> Panic m
           | Ok (None, ldb1) \<Rightarrow> Ok (False, ldb1)
           | Ok (Some requireIter, ldb1) \<Rightarrow>
               (case maybeWrite E ldb1 requireIter of
                  (Some err, ldb2) \<Rightarrow> Panic ''db error''
                | (None, ldb2) \<Rightarrow> Ok (True, acquireIterators ldb2)))"

section \<open>Checkpoint engine (dm/syncer/checkpoint.go)\<close>

subsection \<open>Locations, table points and entries\<close>

text \<open>
  \<^verbatim>\<open>mysql.Position\<close> is a binlog file name with a \<^verbatim>\<open>uint32\<close> offset; \<^verbatim>\<open>binlog.Location\<close>
  adds the GTID set (here the string \<^verbatim>\<open>GTIDSetStr()\<close> prints) and a suffix counter.
  \<^verbatim>\<open>filter.Table\<close> names a table by schema and name. A \<^verbatim>\<open>*model.TableInfo\<close> is a pointer
  that may be nil.
\<close>

record Position =
  Name :: string
  Pos :: "32 word"

record Location =
  Position :: Position
  gtidSet :: string
  Suffix :: "64 word"

record Table =
  Schema :: string
  TName :: string

record TableInfo =
  ti_ID :: "64 word"
  ti_Name :: string

datatype arg = AString string | AUint32 "32 word" | ABool bool

datatype terror =
    ErrCheckpointSaveInvalidPos Location Location
  | ErrSchemaTrackerCannotSerialize string string string
  | ErrDB string

text \<open>
  What the engine calls outside the sources, as a record of functions:
  \<^verbatim>\<open>binlog.CompareLocation(l1, l2, cmpGTID)\<close>, negative, zero or positive;
  \<^verbatim>\<open>binlog.NewLocation(flavor)\<close>, the fresh location; \<^verbatim>\<open>json.Marshal\<close> of a table info
  (\<open>Inl\<close> its error); and \<^verbatim>\<open>dbConn.ExecuteSQL\<close> on a batch of statements with their
  arguments, which answers the database's error, if any.
\<close>

record ext =
  CompareLocation :: "Location \<Rightarrow> Location \<Rightarrow> bool \<Rightarrow> int"
  NewLocation :: "string \<Rightarrow> Location"
  Marshal :: "TableInfo option \<Rightarrow> string + string"
  ExecuteSQL :: "(string \<times> arg list) list \<Rightarrow> string option"

record tablePoint =
  location :: Location
  ti :: "TableInfo option"

record binlogPoint =
  savedPoint :: tablePoint
  flushedPoint :: tablePoint
  enableGTID :: bool

definition newBinlogPoint ::
  "Location \<Rightarrow> Location \<Rightarrow> TableInfo option \<Rightarrow> TableInfo option \<Rightarrow> bool \<Rightarrow> binlogPoint" where
  "newBinlogPoint loc flushedLocation tinfo flushedTI gtid =
     \<lparr>savedPoint = \<lparr>location = loc, ti = tinfo\<rparr>,
      flushedPoint = \<lparr>location = flushedLocation, ti = flushedTI\<rparr>,
      enableGTID = gtid\<rparr>"

text \<open>\<^verbatim>\<open>binlogPoint.save\<close> answers its error together with the entry as it leaves it.\<close>

definition save :: "ext \<Rightarrow> binlogPoint \<Rightarrow> Location \<Rightarrow> TableInfo option \<Rightarrow> terror option \<times> binlogPoint" where
  "save X b loc tinfo =
     (if CompareLocation X loc (location (savedPoint b)) (enableGTID b) < 0 then
        (Some (ErrCheckpointSaveInvalidPos loc (location (savedPoint b))), b)
      else (None, b\<lparr>savedPoint := \<lparr>location = loc, ti = tinfo\<rparr>\<rparr>))"

definition flushBy :: "binlogPoint \<Rightarrow> tablePoint \<Rightarrow> binlogPoint" where
  "flushBy b tp = b\<lparr>flushedPoint := tp\<rparr>"

definition outOfDateBy :: "ext \<Rightarrow> binlogPoint \<Rightarrow> Location \<Rightarrow> bool" where
  "outOfDateBy X b pos = (CompareLocation X pos (location (flushedPoint b)) (enableGTID b) > 0)"

definition outOfDate :: "ext \<Rightarrow> binlogPoint \<Rightarrow> bool" where
  "outOfDate X b = outOfDateBy X b (location (savedPoint b))"

definition MySQLLocation :: "binlogPoint \<Rightarrow> Location" where
  "MySQLLocation b = location (savedPoint b)"

definition FlushedMySQLLocation :: "binlogPoint \<Rightarrow> Location" where
  "FlushedMySQLLocation b = location (flushedPoint b)"

subsection \<open>Go maps of maps\<close>

text \<open>
  \<^verbatim>\<open>map[string]map[string]T\<close> is an association list of association lists: \<open>map_of\<close> reads
  a key, \<open>AList.update\<close> assigns one, \<open>AList.delete\<close> deletes one, and the order of the
  list is the order in which a \<^verbatim>\<open>range\<close> loop meets the keys. \<open>lookup2\<close> is
  \<^verbatim>\<open>m[schema][table]\<close>, which reads a missing schema as an empty map; \<open>entries\<close> lists what
  the two nested \<^verbatim>\<open>range\<close> loops visit.
\<close>

type_synonym 'a tmap = "(string \<times> (string \<times> 'a) list) list"

definition lookup2 :: "'a tmap \<Rightarrow> string \<Rightarrow> string \<Rightarrow> 'a option" where
  "lookup2 m s t = (case map_of m s of None \<Rightarrow> None | Some ts \<Rightarrow> map_of ts t)"

definition entries :: "'a tmap \<Rightarrow> (string \<times> string \<times> 'a) list" where
  "entries m = concat (map (\<lambda>sm. map (\<lambda>tp. (fst sm, fst tp, snd tp)) (snd sm)) m)"


subsection \<open>The engine\<close>

text \<open>
  A \<^verbatim>\<open>time.Time\<close> is \<open>None\<close> when it is the zero time (\<^verbatim>\<open>IsZero()\<close>) and \<open>Some\<close> of an
  instant otherwise; the readings of \<^verbatim>\<open>time.Now()\<close> are arguments. Go's \<^verbatim>\<open>int\<close>
  (\<open>snapshotSeq\<close>, a snapshot's id) is a 64-bit word read as a signed number.
\<close>

type_synonym Time = "nat option"

record SubTaskConfig =
  Flavor :: string
  EnableGTID :: bool

record remoteCheckpointSnapshot =
  id_s :: "64 word"
  globalPoint_s :: "tablePoint option"
  globalPointSaveTime_s :: Time
  points_s :: "tablePoint tmap"

record SnapshotInfo =
  id_i :: "64 word"
  globalPos :: Location

text \<open>
  \<open>logDevelopment\<close> says whether the zap logger of \<open>logCtx\<close> is in development mode:
  \<^verbatim>\<open>DPanic\<close> logs at error level, and panics only in development mode.
\<close>

record RemoteCheckPoint =
  cfg :: SubTaskConfig
  tableName :: string
  id_cp :: string
  points :: "binlogPoint tmap"
  globalPoint :: binlogPoint
  globalPointSaveTime :: Time
  lastSnapshotCreationTime :: Time
  safeModeExitPoint :: "Location option"
  needFlushSafeModeExitPoint :: bool
  logDevelopment :: bool
  snapshots :: "remoteCheckpointSnapshot list"
  snapshotSeq :: "64 word"



definition NewRemoteCheckPoint :: "ext \<Rightarrow> SubTaskConfig \<Rightarrow> string \<Rightarrow> string \<Rightarrow> bool \<Rightarrow> RemoteCheckPoint" where
  "NewRemoteCheckPoint X config table ident development =
     \<lparr>cfg = config, tableName = table, id_cp = ident,
      points = [],
      globalPoint =
        newBinlogPoint (NewLocation X (Flavor config)) (NewLocation X (Flavor config)) None None
          (EnableGTID config),
      globalPointSaveTime = None,
      lastSnapshotCreationTime = None,
      safeModeExitPoint = None,
      needFlushSafeModeExitPoint = False,
      logDevelopment = development,
      snapshots = [],
      snapshotSeq = 0\<rparr>"

text \<open>
  \<^verbatim>\<open>saveTablePoint\<close> returns nothing: the error of \<^verbatim>\<open>point.save\<close> is only logged. The
  model returns it with the new state, so that a rejected save can be told from an
  accepted one.
\<close>

definition saveTablePoint ::
  "ext \<Rightarrow> RemoteCheckPoint \<Rightarrow> Table \<Rightarrow> Location \<Rightarrow> TableInfo option \<Rightarrow>
   (terror option \<times> RemoteCheckPoint) outcome" where
  "saveTablePoint X cp sourceTable loc tinfo =
     (if CompareLocation X (location (savedPoint (globalPoint cp))) loc (EnableGTID (cfg cp)) > 0
      then Panic ''table checkpoint less than global checkpoint''
      else
        (let mSchema = (case map_of (points cp) (Schema sourceTable) of
                          None \<Rightarrow> []
                        | Some m \<Rightarrow> m)
         in case map_of mSchema (TName sourceTable) of
              None \<Rightarrow>
                Ok (None,
                    cp\<lparr>points :=
                         AList.update (Schema sourceTable)
                           (AList.update (TName sourceTable)
                              (newBinlogPoint loc (NewLocation X (Flavor (cfg cp))) tinfo None
                                 (EnableGTID (cfg cp)))
                              mSchema)
                           (points cp)\<rparr>)
            | Some point \<Rightarrow>
                (case save X point loc tinfo of
                   (Some err, point') \<Rightarrow> Ok (Some err, cp)
                 | (None, point') \<Rightarrow>
                     Ok (None,
                         cp\<lparr>points :=
                              AList.update (Schema sourceTable)
                                (AList.update (TName sourceTable) point' mSchema)
                                (points cp)\<rparr>))))"

definition SaveTablePoint ::
  "ext \<Rightarrow> RemoteCheckPoint \<Rightarrow> Table \<Rightarrow> Location \<Rightarrow> TableInfo option \<Rightarrow>
   (terror option \<times> RemoteCheckPoint) outcome" where
  "SaveTablePoint X cp table point tinfo = saveTablePoint X cp table point tinfo"

definition SaveGlobalPoint :: "ext \<Rightarrow> RemoteCheckPoint \<Rightarrow> Location \<Rightarrow> terror option \<times> RemoteCheckPoint" where
  "SaveGlobalPoint X cp loc =
     (case save X (globalPoint cp) loc None of
        (err, point') \<Rightarrow> (err, cp\<lparr>globalPoint := point'\<rparr>))"

definition SaveSafeModeExitPoint :: "ext \<Rightarrow> RemoteCheckPoint \<Rightarrow> Location option \<Rightarrow> RemoteCheckPoint" where
  "SaveSafeModeExitPoint X cp point =
     (if (case safeModeExitPoint cp of
            None \<Rightarrow> True
          | Some stored \<Rightarrow>
              (case point of
                 None \<Rightarrow> True
               | Some new \<Rightarrow> CompareLocation X new stored (EnableGTID (cfg cp)) > 0))
      then cp\<lparr>safeModeExitPoint := point, needFlushSafeModeExitPoint := True\<rparr>
      else cp)"

definition IsOlderThanTablePoint :: "ext \<Rightarrow> RemoteCheckPoint \<Rightarrow> Table \<Rightarrow> Location \<Rightarrow> bool \<Rightarrow> bool" where
  "IsOlderThanTablePoint X cp table loc isDDL =
     (case map_of (points cp) (Schema table) of
        None \<Rightarrow> False
      | Some mSchema \<Rightarrow>
          (case map_of mSchema (TName table) of
             None \<Rightarrow> False
           | Some point \<Rightarrow>
               (let oldLocation = MySQLLocation point in
                if isDDL \<or> \<not> EnableGTID (cfg cp)
                then CompareLocation X loc oldLocation (EnableGTID (cfg cp)) \<le> 0
                else CompareLocation X loc oldLocation (EnableGTID (cfg cp)) < 0)))"

subsection \<open>Snapshots\<close>

text \<open>
  The table part of a snapshot: for every schema the saved points of its out-of-date
  entries, the schema being left out when no entry of it is out of date.
\<close>

definition snapshotTables :: "ext \<Rightarrow> binlogPoint tmap \<Rightarrow> tablePoint tmap" where
  "snapshotTables X pts =
     concat (map (\<lambda>sm.
       (let tableCpSnapshots =
              map (\<lambda>tp. (fst tp, savedPoint (snd tp)))
                (filter (\<lambda>tp. outOfDate X (snd tp)) (snd sm))
        in if length tableCpSnapshots > 0 then [(fst sm, tableCpSnapshots)] else [])) pts)"

text \<open>
  \<^verbatim>\<open>Snapshot(isSyncFlush)\<close>; \<open>nowG\<close> and \<open>now\<close> are its two readings of the clock. The
  answer \<open>None\<close> is the nil \<^verbatim>\<open>*SnapshotInfo\<close>.
\<close>

definition Snapshot ::
  "ext \<Rightarrow> RemoteCheckPoint \<Rightarrow> bool \<Rightarrow> nat \<Rightarrow> nat \<Rightarrow> SnapshotInfo option \<times> RemoteCheckPoint" where
  "Snapshot X cp isSyncFlush nowG now =
     (let cp1 = cp\<lparr>snapshotSeq := snapshotSeq cp + 1\<rparr>;
          ident = snapshotSeq cp1;
          tableCheckPoints = snapshotTables X (points cp1);
          flushGlobalPoint =
            (outOfDate X (globalPoint cp1) \<or> globalPointSaveTime cp1 = None \<or>
             (isSyncFlush \<and> needFlushSafeModeExitPoint cp1))
      in if length tableCheckPoints = 0 \<and> \<not> flushGlobalPoint then (None, cp1)
         else
           (let globalPoint' =
                  \<lparr>location = location (savedPoint (globalPoint cp1)),
                   ti = ti (savedPoint (globalPoint cp1))\<rparr>;
                snapshot =
                  \<lparr>id_s = ident,
                   globalPoint_s = (if flushGlobalPoint then Some globalPoint' else None),
                   globalPointSaveTime_s = (if flushGlobalPoint then Some nowG else None),
                   points_s = tableCheckPoints\<rparr>
            in (Some \<lparr>id_i = ident, globalPos = location globalPoint'\<rparr>,
                cp1\<lparr>snapshots := snapshots cp1 @ [snapshot],
                    lastSnapshotCreationTime := Some now\<rparr>)))"

subsection \<open>Flushing a snapshot\<close>







subsection \<open>Deleting a table's checkpoint\<close>


subsection \<open>Runs of saves and of snapshots\<close>

datatype save_call = CallSaveGlobalPoint Location | CallSaveTablePoint Table Location "TableInfo option"

definition saveCall :: "ext \<Rightarrow> RemoteCheckPoint \<Rightarrow> save_call \<Rightarrow> (terror option \<times> RemoteCheckPoint) outcome" where
  "saveCall X cp c =
     (case c of
        CallSaveGlobalPoint l \<Rightarrow> Ok (SaveGlobalPoint X cp l)
      | CallSaveTablePoint t l tinfo \<Rightarrow> SaveTablePoint X cp t l tinfo)"

text \<open>The states a sequence of save calls goes through; a panic ends the sequence.\<close>

fun saveRun :: "ext \<Rightarrow> RemoteCheckPoint \<Rightarrow> save_call list \<Rightarrow> RemoteCheckPoint list" where
  "saveRun X cp [] = []"
| "saveRun X cp (c # cs) =
     (case saveCall X cp c of
        Panic m \<Rightarrow> []
      | Ok (err, cp') \<Rightarrow> cp' # saveRun X cp' cs)"

text \<open>
  A sequence of \<^verbatim>\<open>Snapshot\<close> calls, each with its flag and clock readings: the id each
  call mints, with what the call returns.
\<close>

fun snapshotRun ::
  "ext \<Rightarrow> RemoteCheckPoint \<Rightarrow> (bool \<times> nat \<times> nat) list \<Rightarrow> (64 word \<times> SnapshotInfo option) list" where
  "snapshotRun X cp [] = []"
| "snapshotRun X cp ((isSyncFlush, nowG, now) # cs) =
     (case Snapshot X cp isSyncFlush nowG now of
        (info, cp') \<Rightarrow> (snapshotSeq cp', info) # snapshotRun X cp' cs)"

subsection \<open>Order of saved locations\<close>

text \<open>
  \<open>savedNotBefore X old new\<close>: the saved location of \<open>new\<close> does not compare less than the
  saved location of \<open>old\<close>, in the comparison order of the entry. \<open>nondecreasing X a b\<close>:
  from state \<open>a\<close> to state \<open>b\<close> the saved location of the global entry and of every table
  entry of \<open>a\<close> has not gone down (and the table entry is still there).
\<close>

definition savedNotBefore :: "ext \<Rightarrow> binlogPoint \<Rightarrow> binlogPoint \<Rightarrow> bool" where
  "savedNotBefore X old new =
     (0 \<le> CompareLocation X (MySQLLocation new) (MySQLLocation old) (enableGTID old))"

definition nondecreasing :: "ext \<Rightarrow> RemoteCheckPoint \<Rightarrow> RemoteCheckPoint \<Rightarrow> bool" where
  "nondecreasing X a b =
     (savedNotBefore X (globalPoint a) (globalPoint b) \<and>
      (\<forall>s t p. lookup2 (points a) s t = Some p \<longrightarrow>
         (\<exists>p'. lookup2 (points b) s t = Some p' \<and> savedNotBefore X p p')))"

subsection \<open>The value a snapshot holds for a table\<close>

text \<open>
  \<open>keyed es\<close> pairs every visited entry with its (schema, table) key; in a Go map of
  maps no key is met twice (\<open>distinctKeys\<close>), and then \<open>snapshotValue\<close> is the one table
  point a snapshot holds for a table, if any.
\<close>

definition keyed :: "(string \<times> string \<times> 'a) list \<Rightarrow> ((string \<times> string) \<times> 'a) list" where
  "keyed es = map (\<lambda>e. ((fst e, fst (snd e)), snd (snd e))) es"





section \<open>Concrete inputs\<close>

definition agentA7 :: BaseAgent where
  "agentA7 =
     \<lparr>pendingOps = [\<lparr>TableID = 4, IsDelete = False, status = operationReceived\<rparr>],
      tableOperations = [], needSyncNow = False,
      ownerInfo = \<lparr>OwnerCaptureID = ''A'', OwnerRev = 7\<rparr>, ownerHasChanged = False\<rparr>"

definition agentSync :: BaseAgent where
  "agentSync =
     \<lparr>pendingOps = [],
      tableOperations =
        [(5, \<lparr>TableID = 5, IsDelete = False, status = operationReceived\<rparr>),
         (1, \<lparr>TableID = 1, IsDelete = True, status = operationProcessed\<rparr>)],
      needSyncNow = True,
      ownerInfo = \<lparr>OwnerCaptureID = ''A'', OwnerRev = 7\<rparr>, ownerHasChanged = False\<rparr>"

definition agentFinishedAdd :: BaseAgent where
  "agentFinishedAdd =
     \<lparr>pendingOps = [],
      tableOperations = [(5, \<lparr>TableID = 5, IsDelete = False, status = operationFinished\<rparr>)],
      needSyncNow = True,
      ownerInfo = \<lparr>OwnerCaptureID = ''A'', OwnerRev = 7\<rparr>, ownerHasChanged = False\<rparr>"

text \<open>
  A service that holds a set of keys, answers the number of keys deleted and fails on
  the empty key.
\<close>

definition kvDelete :: "string list \<Rightarrow> string \<Rightarrow> unit \<Rightarrow> (nat \<times> string option) \<times> string list" where
  "kvDelete keys key opts =
     (if key = [] then ((0, Some ''etcdserver: key is not provided''), keys)
      else ((length (filter (\<lambda>k. k = key) keys), None), filter (\<lambda>k. k \<noteq> key) keys))"



text \<open>
  To run the checkpoint engine on: a position-only comparison of locations
  (by file name, then by offset, whatever the GTID flag), the fresh location at offset 4
  of the unnamed file, a serialiser that never fails and a database that accepts every
  batch.
\<close>

definition comparePosition :: "Position \<Rightarrow> Position \<Rightarrow> int" where
  "comparePosition a b =
     (if Name a < Name b then - 1
      else if Name b < Name a then 1
      else if Pos a < Pos b then - 1
      else if Pos b < Pos a then 1
      else 0)"

definition fresh :: Location where
  "fresh = \<lparr>Position = \<lparr>Name = [], Pos = 4\<rparr>, gtidSet = [], Suffix = 0\<rparr>"

definition positionExt :: ext where
  "positionExt =
     \<lparr>CompareLocation = (\<lambda>a b gtid. comparePosition (Position a) (Position b)),
      NewLocation = (\<lambda>flavor. fresh),
      Marshal = (\<lambda>tinfo. Inr (case tinfo of None \<Rightarrow> ''null'' | Some i \<Rightarrow> ti_Name i)),
      ExecuteSQL = (\<lambda>stmts. None)\<rparr>"

definition binlogAt :: "32 word \<Rightarrow> Location" where
  "binlogAt n = \<lparr>Position = \<lparr>Name = ''bin.000001'', Pos = n\<rparr>, gtidSet = [], Suffix = 0\<rparr>"

definition tbl :: Table where
  "tbl = \<lparr>Schema = ''db'', TName = ''t''\<rparr>"

definition cp0 :: RemoteCheckPoint where
  "cp0 = NewRemoteCheckPoint positionExt \<lparr>Flavor = ''mysql'', EnableGTID = False\<rparr> ''dm_meta.task_syncer_checkpoint'' ''mysql-01'' False"

definition cpSafe10 :: RemoteCheckPoint where
  "cpSafe10 = cp0\<lparr>safeModeExitPoint := Some (binlogAt 10)\<rparr>"

text \<open>
  The states of one run of the engine: a table point saved at offset 10, a snapshot
  taken, the table's checkpoint deleted, the table saved again at offset 5, and the
  snapshot flushed.
\<close>

definition cpT :: RemoteCheckPoint where
  "cpT = cp0\<lparr>points := [(''db'', [(''t'', newBinlogPoint (binlogAt 10) fresh None None False)])]\<rparr>"

definition snap1 :: remoteCheckpointSnapshot where
  "snap1 =
     \<lparr>id_s = 1, globalPoint_s = Some \<lparr>location = fresh, ti = None\<rparr>,
      globalPointSaveTime_s = Some 100,
      points_s = [(''db'', [(''t'', \<lparr>location = binlogAt 10, ti = None\<rparr>)])]\<rparr>"

definition cpSnap :: RemoteCheckPoint where
  "cpSnap = cpT\<lparr>snapshotSeq := 1, snapshots := [snap1], lastSnapshotCreationTime := Some 101\<rparr>"





text \<open>An engine with nothing to flush: its global point was flushed at time 50.\<close>

definition cpQuiet :: RemoteCheckPoint where
  "cpQuiet = cp0\<lparr>globalPointSaveTime := Some 50\<rparr>"

section \<open>Owner identity updates\<close>

text \<open>
  C1. \<^verbatim>\<open>updateOwnerInfo(captureId, rev)\<close>: a strictly newer rev replaces the stored
  owner, sets the owner-changed flag, empties the pending-operation queue and accepts; a
  strictly older rev is rejected and the agent is unchanged; an equal rev with the same
  capture ID accepts and changes nothing; an equal rev with another capture ID panics. In
  particular, after an accept of a strictly newer rev \<open>pendingOps\<close> is empty.
\<close>

theorem updateOwnerInfo_rules:
  "(OwnerRev (ownerInfo a) <s r \<longrightarrow>
      updateOwnerInfo a c r =
        Ok (True, a\<lparr>ownerInfo := \<lparr>OwnerCaptureID = c, OwnerRev = r\<rparr>,
                     ownerHasChanged := True, pendingOps := []\<rparr>)) \<and>
   (r <s OwnerRev (ownerInfo a) \<longrightarrow> updateOwnerInfo a c r = Ok (False, a)) \<and>
   (OwnerRev (ownerInfo a) = r \<and> OwnerCaptureID (ownerInfo a) = c \<longrightarrow>
      updateOwnerInfo a c r = Ok (True, a)) \<and>
   (OwnerRev (ownerInfo a) = r \<and> OwnerCaptureID (ownerInfo a) \<noteq> c \<longrightarrow>
      (\<exists>msg. updateOwnerInfo a c r = Panic msg)) \<and>
   (\<forall>a'. OwnerRev (ownerInfo a) <s r \<and> updateOwnerInfo a c r = Ok (True, a') \<longrightarrow>
      pendingOps a' = [] \<and> ownerHasChanged a' \<and>
      ownerInfo a' = \<lparr>OwnerCaptureID = c, OwnerRev = r\<rparr>)"
  by (auto simp: updateOwnerInfo_def signed.less_asym)

theorem updateOwnerInfo_rules_witness:
  "updateOwnerInfo agentA7 ''B'' 8 =
     Ok (True, agentA7\<lparr>ownerInfo := \<lparr>OwnerCaptureID = ''B'', OwnerRev = 8\<rparr>,
                        ownerHasChanged := True, pendingOps := []\<rparr>) \<and>
   updateOwnerInfo agentA7 ''B'' 6 = Ok (False, agentA7) \<and>
   updateOwnerInfo agentA7 ''A'' 7 = Ok (True, agentA7) \<and>
   (\<exists>msg. updateOwnerInfo agentA7 ''B'' 7 = Panic msg)"
  using updateOwnerInfo_rules [where a = agentA7 and r = 8 and c = "''B''"]
    updateOwnerInfo_rules [where a = agentA7 and r = 6 and c = "''B''"]
    updateOwnerInfo_rules [where a = agentA7 and r = 7 and c = "''A''"]
    updateOwnerInfo_rules [where a = agentA7 and r = 7 and c = "''B''"]
  by (simp add: agentA7_def)

section \<open>The sync payload\<close>

text \<open>
  C6, as the claim states it, fails: an add operation that has reached
  \<open>operationFinished\<close> and waits for the owner's acknowledgement is still in
  \<open>tableOperations\<close>, and \<^verbatim>\<open>sendSync\<close> reports it in \<open>adding\<close>, although no add operation is
  in state Received or Processed.
\<close>

theorem syncPayload_finished_add_counterexample:
  "syncPayload agentFinishedAdd [5] = ([], [5], []) \<and>
   filter (\<lambda>op. \<not> IsDelete op \<and> (status op = operationReceived \<or> status op = operationProcessed))
     (map snd (tableOperations agentFinishedAdd)) = []"
  by (simp add: syncPayload_def SortTableIDs_def agentFinishedAdd_def)

text \<open>
  C6, amended: \<^verbatim>\<open>sendSync\<close>, which \<^verbatim>\<open>Tick\<close> calls when the needs-sync flag is set, hands
  the messenger three lists: \<open>adding\<close> is exactly the table IDs of the pending add operations in any
  state, \<open>removing\<close> exactly those of the pending remove operations, \<open>running\<close> exactly the
  executor's current tables that are not a key of \<open>tableOperations\<close>; each list is ascending
  in the signed value of the IDs.
\<close>

theorem syncPayload_contents:
  "syncPayload a currentTables = (running, adding, removing) \<Longrightarrow>
     sendSync SyncTaskStatuses a currentTables =
       (case SyncTaskStatuses running adding removing of
          (done, Some err) \<Rightarrow> (False, Some err)
        | (done, None) \<Rightarrow> (done, None)) \<and>
     set adding = {TableID op |op. op \<in> snd ` set (tableOperations a) \<and> \<not> IsDelete op} \<and>
     set removing = {TableID op |op. op \<in> snd ` set (tableOperations a) \<and> IsDelete op} \<and>
     set running = {t \<in> set currentTables. t \<notin> fst ` set (tableOperations a)} \<and>
     length running = length (filter (\<lambda>t. t \<notin> fst ` set (tableOperations a)) currentTables) \<and>
     sorted (map sint adding) \<and> sorted (map sint removing) \<and> sorted (map sint running)"
proof -
  assume p: "syncPayload a currentTables = (running, adding, removing)"
  then have s: "sendSync SyncTaskStatuses a currentTables =
       (case SyncTaskStatuses running adding removing of
          (done, Some err) \<Rightarrow> (False, Some err)
        | (done, None) \<Rightarrow> (done, None))"
    by (simp add: sendSync_def)
  from p have r: "running = sort_key sint (filter (\<lambda>t. t \<notin> fst ` set (tableOperations a)) currentTables)"
    and ad: "adding = sort_key sint (map TableID (filter (\<lambda>op. \<not> IsDelete op) (map snd (tableOperations a))))"
    and re: "removing = sort_key sint (map TableID (filter (\<lambda>op. IsDelete op) (map snd (tableOperations a))))"
    by (simp_all add: syncPayload_def SortTableIDs_def Let_def map_of_eq_None_iff)
  have "set adding = {TableID op |op. op \<in> snd ` set (tableOperations a) \<and> \<not> IsDelete op}"
    unfolding ad by force
  moreover have "set removing = {TableID op |op. op \<in> snd ` set (tableOperations a) \<and> IsDelete op}"
    unfolding re by force
  moreover have "set running = {t \<in> set currentTables. t \<notin> fst ` set (tableOperations a)}"
    unfolding r by simp
  moreover have "length running = length (filter (\<lambda>t. t \<notin> fst ` set (tableOperations a)) currentTables)"
    unfolding r by simp
  moreover have "sorted (map sint adding)" "sorted (map sint removing)" "sorted (map sint running)"
    unfolding r ad re by simp_all
  ultimately show ?thesis using s by blast
qed

theorem syncPayload_contents_witness:
  "syncPayload agentSync [3, 1, 2] = ([2, 3], [5], [1]) \<and>
   set [5 :: TableID] = {TableID op |op. op \<in> snd ` set (tableOperations agentSync) \<and> \<not> IsDelete op} \<and>
   sorted (map sint [2, 3 :: TableID])"
proof -
  have e: "syncPayload agentSync [3, 1, 2] = ([2, 3], [5], [1])"
    by (simp add: syncPayload_def SortTableIDs_def agentSync_def)
  from syncPayload_contents [OF e] e show ?thesis by simp
qed

section \<open>Delete on the retrying KV client\<close>

text \<open>
  C9. \<^verbatim>\<open>Client.Delete\<close> invokes the underlying \<^verbatim>\<open>Delete\<close> exactly once (the call counter
  of the service goes up by one and the service is left in the state that one call
  leaves), returns that call's response and error unchanged, and adds one to the
  \<open>Del\<close> counter (when the metrics map holds one; no other counter changes).
\<close>

theorem Delete_invoked_once:
  "cli c = (n, s) \<Longrightarrow> Delete (counted d) c key opts = (res, c') \<Longrightarrow>
     res = fst (d s key opts) \<and>
     cli c' = (Suc n, snd (d s key opts)) \<and>
     (\<forall>m. metrics c EtcdDel = Some m \<longrightarrow> metrics c' EtcdDel = Some (m + 1)) \<and>
     (metrics c EtcdDel = None \<longrightarrow> metrics c' EtcdDel = None) \<and>
     (\<forall>k. k \<noteq> EtcdDel \<longrightarrow> metrics c' k = metrics c k)"
  by (auto simp: Delete_def counted_def split: option.splits prod.splits)

theorem Delete_invoked_once_witness:
  "Delete (counted kvDelete) \<lparr>cli = (0, [''a'', ''b'']), metrics = [EtcdDel \<mapsto> 3]\<rparr> ''a'' () =
     ((1, None), \<lparr>cli = (1, [''b'']), metrics = [EtcdDel \<mapsto> 4]\<rparr>) \<and>
   fst (kvDelete [''a'', ''b''] ''a'' ()) = (1, None)"
proof -
  let ?c = "\<lparr>cli = (0 :: nat, [''a'', ''b'']), metrics = [EtcdDel \<mapsto> 3 :: nat]\<rparr>"
  have e: "Delete (counted kvDelete) ?c ''a'' () =
      ((1, None), \<lparr>cli = (1, [''b'']), metrics = [EtcdDel \<mapsto> 4]\<rparr>)"
    by (simp add: Delete_def counted_def kvDelete_def)
  have c: "cli ?c = (0, [''a'', ''b''])" by simp
  from Delete_invoked_once [OF c e] e show ?thesis by simp
qed

section \<open>Write batching in the storage actor\<close>







section \<open>Reading and writing the map of table entries\<close>

lemma lookup2_assign:
  "lookup2 (AList.update s (AList.update t p ms) m) s' t' =
     (if s' = s then (if t' = t then Some p else map_of ms t') else lookup2 m s' t')"
  by (simp add: lookup2_def update_conv')

lemma lookup2_delete:
  "map_of m s = Some ts \<Longrightarrow>
   lookup2 (AList.update s (AList.delete t ts) m) s' t' =
     (if s' = s \<and> t' = t then None else lookup2 m s' t')"
  by (auto simp: lookup2_def update_conv' delete_conv')

lemma comparePosition_refl: "comparePosition a a = 0"
  by (simp add: comparePosition_def)



lemma positionExt_compare [simp]:
  "CompareLocation positionExt a b g = comparePosition (Position a) (Position b)"
  by (simp add: positionExt_def)

lemma comparePosition_binlogAt [simp]:
  "comparePosition (Position (binlogAt a)) (Position (binlogAt b)) = (if a < b then - 1 else if b < a then 1 else 0)"
  by (simp add: comparePosition_def binlogAt_def)

lemma comparePosition_fresh [simp]:
  "comparePosition (Position fresh) (Position (binlogAt b)) = - 1"
  "comparePosition (Position (binlogAt b)) (Position fresh) = 1"
  "comparePosition (Position fresh) (Position fresh) = 0"
  by (simp_all add: comparePosition_def binlogAt_def fresh_def)

lemma positionExt_simps [simp]:
  "NewLocation positionExt flavor = fresh"
  "Marshal positionExt tinfo = Inr (case tinfo of None \<Rightarrow> ''null'' | Some i \<Rightarrow> ti_Name i)"
  "ExecuteSQL positionExt stmts = None"
  by (simp_all add: positionExt_def)

lemma cp0_simps:
  "cfg cp0 = \<lparr>Flavor = ''mysql'', EnableGTID = False\<rparr>"
  "points cp0 = []"
  "globalPoint cp0 = newBinlogPoint fresh fresh None None False"
  "globalPointSaveTime cp0 = None"
  "safeModeExitPoint cp0 = None"
  "needFlushSafeModeExitPoint cp0 = False"
  "logDevelopment cp0 = False"
  "snapshots cp0 = []"
  "snapshotSeq cp0 = 0"
  by (simp_all add: cp0_def NewRemoteCheckPoint_def)

section \<open>Saves keep saved locations from going down\<close>

lemma save_error_iff:
  "(fst (save X b l i) \<noteq> None) = (CompareLocation X l (location (savedPoint b)) (enableGTID b) < 0)"
  by (simp add: save_def)

lemma save_error_unchanged: "fst (save X b l i) \<noteq> None \<Longrightarrow> snd (save X b l i) = b"
  by (simp add: save_def split: if_splits)

lemma save_accepted:
  "fst (save X b l i) = None \<Longrightarrow>
     snd (save X b l i) = b\<lparr>savedPoint := \<lparr>location = l, ti = i\<rparr>\<rparr>"
  by (simp add: save_def split: if_splits)

lemma save_notBefore:
  assumes "\<forall>l g. CompareLocation X l l g = 0"
  shows "savedNotBefore X b (snd (save X b l i))"
  using assms by (simp add: save_def savedNotBefore_def MySQLLocation_def)

lemma saveTablePoint_Ok:
  assumes "saveTablePoint X cp t l i = Ok (e, cp')"
  shows "\<exists>ms. (case map_of (points cp) (Schema t) of None \<Rightarrow> ms = [] | Some m \<Rightarrow> ms = m) \<and>
      (case map_of ms (TName t) of
         None \<Rightarrow> e = None \<and>
           cp' = cp\<lparr>points := AList.update (Schema t)
                  (AList.update (TName t)
                     (newBinlogPoint l (NewLocation X (Flavor (cfg cp))) i None (EnableGTID (cfg cp))) ms)
                  (points cp)\<rparr>
       | Some b \<Rightarrow> e = fst (save X b l i) \<and>
           (if e = None
            then cp' = cp\<lparr>points := AList.update (Schema t)
                   (AList.update (TName t) (snd (save X b l i)) ms) (points cp)\<rparr>
            else cp' = cp))"
  using assms
  by (auto simp: saveTablePoint_def Let_def split: if_splits option.splits prod.splits)

lemma lookup2_via_schema:
  "(case map_of m s of None \<Rightarrow> ms = [] | Some x \<Rightarrow> ms = x) \<Longrightarrow> lookup2 m s t = map_of ms t"
  by (simp add: lookup2_def split: option.splits)

lemma saveTablePoint_lookup:
  assumes "saveTablePoint X cp t l i = Ok (e, cp')"
  shows "(case lookup2 (points cp) (Schema t) (TName t) of
            None \<Rightarrow> e = None \<and>
              lookup2 (points cp') (Schema t) (TName t) =
                Some (newBinlogPoint l (NewLocation X (Flavor (cfg cp))) i None (EnableGTID (cfg cp)))
          | Some b \<Rightarrow> e = fst (save X b l i) \<and>
              lookup2 (points cp') (Schema t) (TName t) = Some (snd (save X b l i)))"
    and "(s', t') \<noteq> (Schema t, TName t) \<Longrightarrow> lookup2 (points cp') s' t' = lookup2 (points cp) s' t'"
    and "cp'\<lparr>points := points cp\<rparr> = cp"
proof -
  from saveTablePoint_Ok [OF assms] obtain ms where
    ms: "case map_of (points cp) (Schema t) of None \<Rightarrow> ms = [] | Some m \<Rightarrow> ms = m"
    and r: "case map_of ms (TName t) of
         None \<Rightarrow> e = None \<and>
           cp' = cp\<lparr>points := AList.update (Schema t)
                  (AList.update (TName t)
                     (newBinlogPoint l (NewLocation X (Flavor (cfg cp))) i None (EnableGTID (cfg cp))) ms)
                  (points cp)\<rparr>
       | Some b \<Rightarrow> e = fst (save X b l i) \<and>
           (if e = None
            then cp' = cp\<lparr>points := AList.update (Schema t)
                   (AList.update (TName t) (snd (save X b l i)) ms) (points cp)\<rparr>
            else cp' = cp)"
    by blast
  note lk = lookup2_via_schema [OF ms]
  show "(case lookup2 (points cp) (Schema t) (TName t) of
            None \<Rightarrow> e = None \<and>
              lookup2 (points cp') (Schema t) (TName t) =
                Some (newBinlogPoint l (NewLocation X (Flavor (cfg cp))) i None (EnableGTID (cfg cp)))
          | Some b \<Rightarrow> e = fst (save X b l i) \<and>
              lookup2 (points cp') (Schema t) (TName t) = Some (snd (save X b l i)))"
  proof (cases "map_of ms (TName t)")
    case None
    with r lk show ?thesis by (simp add: lookup2_assign)
  next
    case (Some b)
    with r lk save_error_unchanged [of X b l i] show ?thesis
      by (cases "e = None") (auto simp: lookup2_assign)
  qed
  show "lookup2 (points cp') s' t' = lookup2 (points cp) s' t'" if "(s', t') \<noteq> (Schema t, TName t)"
  proof (cases "map_of ms (TName t)")
    case None
    with r lk that show ?thesis by (auto simp: lookup2_assign)
  next
    case (Some b)
    with r lk that show ?thesis
      by (cases "e = None") (auto simp: lookup2_assign)
  qed
  show "cp'\<lparr>points := points cp\<rparr> = cp"
    using r by (cases "map_of ms (TName t)") (auto split: if_splits)
qed


lemma saveCall_nondecreasing:
  assumes refl: "\<forall>l g. CompareLocation X l l g = 0"
    and ok: "saveCall X cp c = Ok (e, cp')"
  shows "nondecreasing X cp cp'"
proof (cases c)
  case (CallSaveGlobalPoint l)
  with ok have cp': "cp' = cp\<lparr>globalPoint := snd (save X (globalPoint cp) l None)\<rparr>"
    by (auto simp: saveCall_def SaveGlobalPoint_def split: prod.splits)
  have "savedNotBefore X (globalPoint cp) (globalPoint cp')"
    unfolding cp' using save_notBefore [OF refl] by simp
  moreover have "savedNotBefore X p p" for p
    using refl by (simp add: savedNotBefore_def)
  ultimately show ?thesis
    unfolding nondecreasing_def cp' by simp
next
  case (CallSaveTablePoint t l i)
  with ok have stp: "saveTablePoint X cp t l i = Ok (e, cp')"
    by (simp add: saveCall_def SaveTablePoint_def)
  note lk = saveTablePoint_lookup [OF stp]
  have same: "savedNotBefore X p p" for p
    using refl by (simp add: savedNotBefore_def)
  from lk(3) have "globalPoint cp = globalPoint (cp'\<lparr>points := points cp\<rparr>)" by simp
  then have g: "globalPoint cp' = globalPoint cp" by simp
  have "\<exists>p'. lookup2 (points cp') s u = Some p' \<and> savedNotBefore X p p'"
    if p: "lookup2 (points cp) s u = Some p" for s u p
  proof (cases "(s, u) = (Schema t, TName t)")
    case True
    with p lk(1) have "lookup2 (points cp') s u = Some (snd (save X p l i))" by simp
    with save_notBefore [OF refl] show ?thesis by blast
  next
    case False
    with lk(2) p same show ?thesis by auto
  qed
  with g same show ?thesis
    unfolding nondecreasing_def by simp
qed

lemma saveRun_successively:
  assumes refl: "\<forall>l g. CompareLocation X l l g = 0"
  shows "successively (nondecreasing X) (cp # saveRun X cp calls)"
proof (induction calls arbitrary: cp)
  case Nil
  show ?case by simp
next
  case (Cons c cs)
  show ?case
  proof (cases "saveCall X cp c")
    case (Panic m)
    then show ?thesis by simp
  next
    case (Ok r)
    obtain e cp' where r: "r = (e, cp')" by (cases r)
    from Ok r saveCall_nondecreasing [OF refl] have "nondecreasing X cp cp'" by simp
    with Cons.IH [of cp'] Ok r show ?thesis by simp
  qed
qed

text \<open>
  C2. Along every sequence of \<^verbatim>\<open>SaveGlobalPoint\<close> and \<^verbatim>\<open>SaveTablePoint\<close> calls (up to a
  panic, whether or not a save is rejected on the way), the saved location of the global
  entry and of each table entry never goes down from one state to the next, in the
  entry's comparison order, for any comparison that finds a location equal to itself.
  \<^verbatim>\<open>entry.save\<close> answers an error exactly when the new location compares strictly less
  than the saved one; then the entry is unchanged, and otherwise its saved point is the
  new location with the new table info.
\<close>

theorem saves_nondecreasing:
  "\<forall>l g. CompareLocation X l l g = 0 \<Longrightarrow>
     successively (nondecreasing X) (cp # saveRun X cp calls) \<and>
     ((fst (save X b l i) \<noteq> None) =
        (CompareLocation X l (location (savedPoint b)) (enableGTID b) < 0)) \<and>
     (fst (save X b l i) \<noteq> None \<longrightarrow> snd (save X b l i) = b) \<and>
     (fst (save X b l i) = None \<longrightarrow>
        snd (save X b l i) = b\<lparr>savedPoint := \<lparr>location = l, ti = i\<rparr>\<rparr>)"
  using saveRun_successively [of X cp calls] save_error_iff [of X b l i]
    save_error_unchanged [of X b l i] save_accepted [of X b l i]
  by blast

theorem saves_nondecreasing_witness:
  "successively (nondecreasing positionExt)
     (cp0 # saveRun positionExt cp0
        [CallSaveGlobalPoint (binlogAt 5), CallSaveTablePoint tbl (binlogAt 10) None,
         CallSaveTablePoint tbl (binlogAt 8) None, CallSaveTablePoint tbl (binlogAt 20) None,
         CallSaveGlobalPoint (binlogAt 7)]) \<and>
   map (\<lambda>c. Pos (Position (MySQLLocation (globalPoint c))))
     (cp0 # saveRun positionExt cp0
        [CallSaveGlobalPoint (binlogAt 5), CallSaveTablePoint tbl (binlogAt 10) None,
         CallSaveTablePoint tbl (binlogAt 8) None, CallSaveTablePoint tbl (binlogAt 20) None,
         CallSaveGlobalPoint (binlogAt 7)]) = [4, 5, 5, 5, 5, 7] \<and>
   map (\<lambda>c. map_option (\<lambda>p. Pos (Position (MySQLLocation p))) (lookup2 (points c) ''db'' ''t''))
     (cp0 # saveRun positionExt cp0
        [CallSaveGlobalPoint (binlogAt 5), CallSaveTablePoint tbl (binlogAt 10) None,
         CallSaveTablePoint tbl (binlogAt 8) None, CallSaveTablePoint tbl (binlogAt 20) None,
         CallSaveGlobalPoint (binlogAt 7)]) = [None, None, Some 10, Some 10, Some 20, Some 20] \<and>
   fst (save positionExt (newBinlogPoint (binlogAt 10) (binlogAt 4) None None False) (binlogAt 8) None) \<noteq> None"
proof -
  have refl: "\<forall>l g. CompareLocation positionExt l l g = 0"
    by (simp add: comparePosition_refl)
  have run: "saveRun positionExt cp0
        [CallSaveGlobalPoint (binlogAt 5), CallSaveTablePoint tbl (binlogAt 10) None,
         CallSaveTablePoint tbl (binlogAt 8) None, CallSaveTablePoint tbl (binlogAt 20) None,
         CallSaveGlobalPoint (binlogAt 7)] =
      [cp0\<lparr>globalPoint := newBinlogPoint (binlogAt 5) fresh None None False\<rparr>,
       cp0\<lparr>globalPoint := newBinlogPoint (binlogAt 5) fresh None None False,
           points := [(''db'', [(''t'', newBinlogPoint (binlogAt 10) fresh None None False)])]\<rparr>,
       cp0\<lparr>globalPoint := newBinlogPoint (binlogAt 5) fresh None None False,
           points := [(''db'', [(''t'', newBinlogPoint (binlogAt 10) fresh None None False)])]\<rparr>,
       cp0\<lparr>globalPoint := newBinlogPoint (binlogAt 5) fresh None None False,
           points := [(''db'', [(''t'', newBinlogPoint (binlogAt 20) fresh None None False)])]\<rparr>,
       cp0\<lparr>globalPoint := newBinlogPoint (binlogAt 7) fresh None None False,
           points := [(''db'', [(''t'', newBinlogPoint (binlogAt 20) fresh None None False)])]\<rparr>]"
    by (simp add: saveCall_def SaveGlobalPoint_def SaveTablePoint_def saveTablePoint_def save_def
        cp0_def NewRemoteCheckPoint_def newBinlogPoint_def tbl_def Let_def)
  have vals: "map (\<lambda>c. Pos (Position (MySQLLocation (globalPoint c))))
     (cp0 # saveRun positionExt cp0
        [CallSaveGlobalPoint (binlogAt 5), CallSaveTablePoint tbl (binlogAt 10) None,
         CallSaveTablePoint tbl (binlogAt 8) None, CallSaveTablePoint tbl (binlogAt 20) None,
         CallSaveGlobalPoint (binlogAt 7)]) = [4, 5, 5, 5, 5, 7]"
    "map (\<lambda>c. map_option (\<lambda>p. Pos (Position (MySQLLocation p))) (lookup2 (points c) ''db'' ''t''))
     (cp0 # saveRun positionExt cp0
        [CallSaveGlobalPoint (binlogAt 5), CallSaveTablePoint tbl (binlogAt 10) None,
         CallSaveTablePoint tbl (binlogAt 8) None, CallSaveTablePoint tbl (binlogAt 20) None,
         CallSaveGlobalPoint (binlogAt 7)]) = [None, None, Some 10, Some 10, Some 20, Some 20]"
    unfolding run
    by (simp_all add: cp0_def NewRemoteCheckPoint_def newBinlogPoint_def MySQLLocation_def
        lookup2_def binlogAt_def fresh_def)
  note T = saves_nondecreasing [OF refl, of cp0
        "[CallSaveGlobalPoint (binlogAt 5), CallSaveTablePoint tbl (binlogAt 10) None,
          CallSaveTablePoint tbl (binlogAt 8) None, CallSaveTablePoint tbl (binlogAt 20) None,
          CallSaveGlobalPoint (binlogAt 7)]"
        "newBinlogPoint (binlogAt 10) (binlogAt 4) None None False" "binlogAt 8" None]
  from T have a: "successively (nondecreasing positionExt)
     (cp0 # saveRun positionExt cp0
        [CallSaveGlobalPoint (binlogAt 5), CallSaveTablePoint tbl (binlogAt 10) None,
         CallSaveTablePoint tbl (binlogAt 8) None, CallSaveTablePoint tbl (binlogAt 20) None,
         CallSaveGlobalPoint (binlogAt 7)])"
    by (rule conjunct1)
  from T have "(fst (save positionExt (newBinlogPoint (binlogAt 10) (binlogAt 4) None None False) (binlogAt 8) None) \<noteq> None) =
      (CompareLocation positionExt (binlogAt 8)
         (location (savedPoint (newBinlogPoint (binlogAt 10) (binlogAt 4) None None False)))
         (enableGTID (newBinlogPoint (binlogAt 10) (binlogAt 4) None None False)) < 0)"
    by (rule conjunct2 [THEN conjunct1])
  then have b: "fst (save positionExt (newBinlogPoint (binlogAt 10) (binlogAt 4) None None False) (binlogAt 8) None) \<noteq> None"
    by (simp add: newBinlogPoint_def)
  from a b vals show ?thesis by blast
qed

section \<open>Table points never go below the global point\<close>





section \<open>The safe-mode exit point\<close>

text \<open>
  C7, as the claim states it, fails: with a stored pointer at offset 10, a call with the
  nil pointer replaces the stored pointer by nil and raises the flag, although nil is no
  location strictly newer than the stored one.
\<close>

theorem SaveSafeModeExitPoint_nil_counterexample:
  "safeModeExitPoint cpSafe10 = Some (binlogAt 10) \<and>
   needFlushSafeModeExitPoint cpSafe10 = False \<and>
   safeModeExitPoint (SaveSafeModeExitPoint positionExt cpSafe10 None) = None \<and>
   needFlushSafeModeExitPoint (SaveSafeModeExitPoint positionExt cpSafe10 None) = True"
  by (simp add: SaveSafeModeExitPoint_def cpSafe10_def cp0_def NewRemoteCheckPoint_def)

text \<open>
  C7, amended. \<^verbatim>\<open>SaveSafeModeExitPoint(loc)\<close> sets the stored pointer to \<open>loc\<close> and raises
  the needs-flush flag when no pointer is stored, when \<open>loc\<close> is nil, or when \<open>loc\<close> is
  strictly newer than the stored location in the engine's order; otherwise (both are
  locations and \<open>loc\<close> is not strictly newer) the engine is unchanged.
\<close>

theorem SaveSafeModeExitPoint_sets_iff:
  "(safeModeExitPoint cp = None \<or> point = None \<or>
    (\<exists>new stored. point = Some new \<and> safeModeExitPoint cp = Some stored \<and>
       CompareLocation X new stored (EnableGTID (cfg cp)) > 0) \<longrightarrow>
      SaveSafeModeExitPoint X cp point =
        cp\<lparr>safeModeExitPoint := point, needFlushSafeModeExitPoint := True\<rparr>) \<and>
   ((\<exists>new stored. point = Some new \<and> safeModeExitPoint cp = Some stored \<and>
       \<not> CompareLocation X new stored (EnableGTID (cfg cp)) > 0) \<longrightarrow>
      SaveSafeModeExitPoint X cp point = cp)"
  by (auto simp: SaveSafeModeExitPoint_def split: option.splits)

theorem SaveSafeModeExitPoint_sets_iff_witness:
  "SaveSafeModeExitPoint positionExt cp0 (Some (binlogAt 5)) =
     cp0\<lparr>safeModeExitPoint := Some (binlogAt 5), needFlushSafeModeExitPoint := True\<rparr> \<and>
   SaveSafeModeExitPoint positionExt cpSafe10 (Some (binlogAt 20)) =
     cpSafe10\<lparr>safeModeExitPoint := Some (binlogAt 20), needFlushSafeModeExitPoint := True\<rparr> \<and>
   SaveSafeModeExitPoint positionExt cpSafe10 (Some (binlogAt 10)) = cpSafe10 \<and>
   SaveSafeModeExitPoint positionExt cpSafe10 (Some (binlogAt 5)) = cpSafe10"
proof -
  have s: "safeModeExitPoint cp0 = None" "safeModeExitPoint cpSafe10 = Some (binlogAt 10)"
    by (simp_all add: cpSafe10_def cp0_def NewRemoteCheckPoint_def)
  show ?thesis
    using SaveSafeModeExitPoint_sets_iff [where X = positionExt and cp = cp0 and point = "Some (binlogAt 5)"]
      SaveSafeModeExitPoint_sets_iff [where X = positionExt and cp = cpSafe10 and point = "Some (binlogAt 20)"]
      SaveSafeModeExitPoint_sets_iff [where X = positionExt and cp = cpSafe10 and point = "Some (binlogAt 10)"]
      SaveSafeModeExitPoint_sets_iff [where X = positionExt and cp = cpSafe10 and point = "Some (binlogAt 5)"]
    by (simp add: s)
qed

section \<open>Events of tables without a checkpoint\<close>

text \<open>
  C10. For a table with no entry in the engine's map, because its schema is absent or
  because the table is absent under its schema, \<^verbatim>\<open>IsOlderThanTablePoint\<close> answers false
  for every location and either value of \<open>isDDL\<close>.
\<close>

theorem IsOlderThanTablePoint_no_entry:
  "(map_of (points cp) (Schema t) = None \<longrightarrow> IsOlderThanTablePoint X cp t l isDDL = False) \<and>
   (\<forall>m. map_of (points cp) (Schema t) = Some m \<and> map_of m (TName t) = None \<longrightarrow>
      IsOlderThanTablePoint X cp t l isDDL = False) \<and>
   (lookup2 (points cp) (Schema t) (TName t) = None \<longrightarrow>
      IsOlderThanTablePoint X cp t l isDDL = False)"
  by (auto simp: IsOlderThanTablePoint_def lookup2_def split: option.splits)

theorem IsOlderThanTablePoint_no_entry_witness:
  "IsOlderThanTablePoint positionExt cp0 tbl (binlogAt 1) True = False \<and>
   IsOlderThanTablePoint positionExt
     (cp0\<lparr>points := [(''db'', [(''u'', newBinlogPoint (binlogAt 9) (binlogAt 9) None None False)])]\<rparr>)
     tbl (binlogAt 1) False = False \<and>
   IsOlderThanTablePoint positionExt
     (cp0\<lparr>points := [(''db'', [(''t'', newBinlogPoint (binlogAt 9) (binlogAt 9) None None False)])]\<rparr>)
     tbl (binlogAt 1) False = True"
proof -
  have p: "points cp0 = []" "cfg cp0 = \<lparr>Flavor = ''mysql'', EnableGTID = False\<rparr>"
    by (simp_all add: cp0_def NewRemoteCheckPoint_def)
  have "IsOlderThanTablePoint positionExt
     (cp0\<lparr>points := [(''db'', [(''t'', newBinlogPoint (binlogAt 9) (binlogAt 9) None None False)])]\<rparr>)
     tbl (binlogAt 1) False = True"
    by (simp add: IsOlderThanTablePoint_def tbl_def p MySQLLocation_def newBinlogPoint_def)
  then show ?thesis
    using IsOlderThanTablePoint_no_entry [where X = positionExt and cp = cp0 and t = tbl]
      IsOlderThanTablePoint_no_entry [where X = positionExt and t = tbl
        and cp = "cp0\<lparr>points := [(''db'', [(''u'', newBinlogPoint (binlogAt 9) (binlogAt 9) None None False)])]\<rparr>"]
    by (simp add: p tbl_def)
qed

section \<open>Snapshots\<close>

lemma entries_Cons:
  "entries ((s, ts) # m) = map (\<lambda>tp. (s, fst tp, snd tp)) ts @ entries m"
  by (simp add: entries_def)

lemma entries_Nil [simp]: "entries [] = []"
  by (simp add: entries_def)

lemma entries_append: "entries (a @ b) = entries a @ entries b"
  by (simp add: entries_def)

lemma entries_guard:
  "entries (if length l > 0 then [(s, l)] else []) = map (\<lambda>tp. (s, fst tp, snd tp)) l"
  by (simp add: entries_def)

lemma snapshotTables_Cons:
  "snapshotTables X (sm # pts) =
     (if length (map (\<lambda>tp. (fst tp, savedPoint (snd tp))) (filter (\<lambda>tp. outOfDate X (snd tp)) (snd sm))) > 0
      then [(fst sm, map (\<lambda>tp. (fst tp, savedPoint (snd tp))) (filter (\<lambda>tp. outOfDate X (snd tp)) (snd sm)))]
      else []) @ snapshotTables X pts"
  by (simp add: snapshotTables_def Let_def)

lemma entries_snapshotTables:
  "entries (snapshotTables X pts) =
     map (\<lambda>e. (fst e, fst (snd e), savedPoint (snd (snd e))))
       (filter (\<lambda>e. outOfDate X (snd (snd e))) (entries pts))"
proof (induction pts)
  case Nil
  show ?case by (simp add: snapshotTables_def)
next
  case (Cons sm pts)
  obtain s ts where sm: "sm = (s, ts)" by (cases sm)
  show ?case
    unfolding snapshotTables_Cons entries_append entries_guard Cons.IH sm entries_Cons
    by (simp add: filter_map comp_def)
qed

lemma set_entries_snapshotTables:
  "set (entries (snapshotTables X pts)) =
     {(s, t, savedPoint b) |s t b. (s, t, b) \<in> set (entries pts) \<and> outOfDate X b}"
  unfolding entries_snapshotTables by force

lemma snapshotTables_Nil_iff: "(snapshotTables X pts = []) = (entries (snapshotTables X pts) = [])"
proof (induction pts)
  case Nil
  show ?case by (simp add: snapshotTables_def)
next
  case (Cons sm pts)
  show ?case
    unfolding snapshotTables_Cons entries_append
    by (simp add: Cons.IH entries_def)
qed

lemma snapshotTables_empty_iff:
  "(snapshotTables X pts = []) = (\<not> (\<exists>e \<in> set (entries pts). outOfDate X (snd (snd e))))"
  unfolding snapshotTables_Nil_iff entries_snapshotTables
  by (simp add: filter_empty_conv)

lemma Snapshot_seq: "snapshotSeq (snd (Snapshot X cp f nowG now)) = snapshotSeq cp + 1"
  by (simp add: Snapshot_def Let_def)

lemma Snapshot_info_id:
  "fst (Snapshot X cp f nowG now) = Some info \<Longrightarrow> id_i info = snapshotSeq cp + 1"
  by (auto simp: Snapshot_def Let_def split: if_splits)

lemma sint_Suc_64:
  fixes x :: "64 word"
  assumes "sint x + 1 < 2 ^ 63"
  shows "sint (x + 1) = sint x + 1"
proof -
  have lo: "- (2 ^ 63) \<le> sint x" using sint_ge [of x] by simp
  have "sint (x + 1) = signed_take_bit 63 (sint x + sint (1 :: 64 word))"
    by (simp add: sint_word_ariths)
  also have "sint (1 :: 64 word) = 1" by simp
  also have "signed_take_bit 63 (sint x + 1) = sint x + 1"
    using assms lo by (intro signed_take_bit_int_eq_self) auto
  finally show ?thesis .
qed

lemma snapshotRun_Cons:
  "snapshotRun X cp ((f, nowG, now) # cs) =
     (snapshotSeq (snd (Snapshot X cp f nowG now)), fst (Snapshot X cp f nowG now)) #
     snapshotRun X (snd (Snapshot X cp f nowG now)) cs"
  by (simp split: prod.splits)

lemma snapshotRun_ids:
  "sint (snapshotSeq cp) + int (length calls) < 2 ^ 63 \<Longrightarrow>
     sorted_wrt (\<lambda>a b. a <s b) (map fst (snapshotRun X cp calls)) \<and>
     (\<forall>i \<in> set (map fst (snapshotRun X cp calls)). snapshotSeq cp <s i)"
proof (induction calls arbitrary: cp)
  case Nil
  show ?case by simp
next
  case (Cons c cs)
  obtain f nowG now where c: "c = (f, nowG, now)" by (cases c)
  let ?cp' = "snd (Snapshot X cp f nowG now)"
  from Cons.prems have b: "sint (snapshotSeq cp) + 1 < 2 ^ 63" by simp
  have seq: "sint (snapshotSeq ?cp') = sint (snapshotSeq cp) + 1"
    using sint_Suc_64 [OF b] by (simp add: Snapshot_seq)
  with Cons.prems have "sint (snapshotSeq ?cp') + int (length cs) < 2 ^ 63" by simp
  from Cons.IH [OF this] have ih:
    "sorted_wrt (\<lambda>a b. a <s b) (map fst (snapshotRun X ?cp' cs))"
    "\<forall>i \<in> set (map fst (snapshotRun X ?cp' cs)). snapshotSeq ?cp' <s i"
    by blast+
  have less: "snapshotSeq cp <s snapshotSeq ?cp'"
    using seq by (simp add: word_sless_alt)
  have run: "snapshotRun X cp (c # cs) =
      (snapshotSeq ?cp', fst (Snapshot X cp f nowG now)) # snapshotRun X ?cp' cs"
    by (simp add: c split: prod.splits)
  from ih less show ?case
    unfolding run by (auto intro: signed.less_trans)
qed

lemma snapshotRun_info_ids:
  "(i, Some info) \<in> set (snapshotRun X cp calls) \<Longrightarrow> id_i info = i"
proof (induction calls arbitrary: cp)
  case Nil
  then show ?case by simp
next
  case (Cons c cs)
  obtain f nowG now where c: "c = (f, nowG, now)" by (cases c)
  let ?cp' = "snd (Snapshot X cp f nowG now)"
  have run: "snapshotRun X cp (c # cs) =
      (snapshotSeq ?cp', fst (Snapshot X cp f nowG now)) # snapshotRun X ?cp' cs"
    by (simp add: c split: prod.splits)
  from Cons.prems consider "i = snapshotSeq ?cp'" "fst (Snapshot X cp f nowG now) = Some info"
    | "(i, Some info) \<in> set (snapshotRun X ?cp' cs)"
    unfolding run by auto
  then show ?case
  proof cases
    case 1
    with Snapshot_info_id [of X cp f nowG now info] Snapshot_seq [of X cp f nowG now]
    show ?thesis by simp
  next
    case 2
    with Cons.IH show ?thesis by blast
  qed
qed

lemma Snapshot_nil:
  assumes "\<not> (\<exists>e \<in> set (entries (points cp)). outOfDate X (snd (snd e)))"
    and "\<not> (outOfDate X (globalPoint cp) \<or> globalPointSaveTime cp = None \<or>
             (f \<and> needFlushSafeModeExitPoint cp))"
  shows "Snapshot X cp f nowG now = (None, cp\<lparr>snapshotSeq := snapshotSeq cp + 1\<rparr>)"
  using assms snapshotTables_empty_iff [of X "points cp"]
  by (simp add: Snapshot_def Let_def)

lemma Snapshot_some:
  assumes "(\<exists>e \<in> set (entries (points cp)). outOfDate X (snd (snd e))) \<or>
           (outOfDate X (globalPoint cp) \<or> globalPointSaveTime cp = None \<or>
             (f \<and> needFlushSafeModeExitPoint cp))"
  shows "Snapshot X cp f nowG now =
     (Some \<lparr>id_i = snapshotSeq cp + 1, globalPos = location (savedPoint (globalPoint cp))\<rparr>,
      cp\<lparr>snapshotSeq := snapshotSeq cp + 1,
          snapshots := snapshots cp @
            [\<lparr>id_s = snapshotSeq cp + 1,
              globalPoint_s =
                (if outOfDate X (globalPoint cp) \<or> globalPointSaveTime cp = None \<or>
                    (f \<and> needFlushSafeModeExitPoint cp)
                 then Some (savedPoint (globalPoint cp)) else None),
              globalPointSaveTime_s =
                (if outOfDate X (globalPoint cp) \<or> globalPointSaveTime cp = None \<or>
                    (f \<and> needFlushSafeModeExitPoint cp)
                 then Some nowG else None),
              points_s = snapshotTables X (points cp)\<rparr>],
          lastSnapshotCreationTime := Some now\<rparr>)"
proof -
  have "\<not> (length (snapshotTables X (points cp)) = 0 \<and>
           \<not> (outOfDate X (globalPoint cp) \<or> globalPointSaveTime cp = None \<or>
                (f \<and> needFlushSafeModeExitPoint cp)))"
    using assms snapshotTables_empty_iff [of X "points cp"] by auto
  then show ?thesis
    by (simp add: Snapshot_def Let_def)
qed


text \<open>
  C5. \<^verbatim>\<open>Snapshot(isSyncFlush)\<close> mints the id \<open>snapshotSeq + 1\<close>. When no table entry is
  out of date and the global entry is not to be flushed, it returns nil and the queue is
  as before. Otherwise it appends one snapshot with that id to the end of the queue and
  returns the id with the global saved location; the snapshot's table points are exactly
  the saved points of the entries whose saved location compares strictly greater than
  their flushed location; and its global point is the global saved point exactly when
  the global entry is out of date, or the global save time is zero (the global point was
  never flushed with a snapshot), or \<open>isSyncFlush\<close> and the needs-flush flag are both set.
  Across a sequence of \<^verbatim>\<open>Snapshot\<close> calls that does not take the sequence number past
  the largest \<^verbatim>\<open>int\<close>, the minted ids are strictly increasing, and a returned id is the
  minted one.
\<close>

theorem Snapshot_contents_and_ids:
  "snapshotSeq (snd (Snapshot X cp f nowG now)) = snapshotSeq cp + 1 \<and>
   points (snd (Snapshot X cp f nowG now)) = points cp \<and>
   globalPoint (snd (Snapshot X cp f nowG now)) = globalPoint cp \<and>
   (\<not> (\<exists>e \<in> set (entries (points cp)). outOfDate X (snd (snd e))) \<and>
    \<not> (outOfDate X (globalPoint cp) \<or> globalPointSaveTime cp = None \<or>
         (f \<and> needFlushSafeModeExitPoint cp)) \<longrightarrow>
      fst (Snapshot X cp f nowG now) = None \<and>
      snapshots (snd (Snapshot X cp f nowG now)) = snapshots cp) \<and>
   ((\<exists>e \<in> set (entries (points cp)). outOfDate X (snd (snd e))) \<or>
    (outOfDate X (globalPoint cp) \<or> globalPointSaveTime cp = None \<or>
         (f \<and> needFlushSafeModeExitPoint cp)) \<longrightarrow>
      fst (Snapshot X cp f nowG now) =
        Some \<lparr>id_i = snapshotSeq cp + 1, globalPos = location (savedPoint (globalPoint cp))\<rparr> \<and>
      (\<exists>snap. snapshots (snd (Snapshot X cp f nowG now)) = snapshots cp @ [snap] \<and>
         id_s snap = snapshotSeq cp + 1 \<and>
         set (entries (points_s snap)) =
           {(s, t, savedPoint b) |s t b. (s, t, b) \<in> set (entries (points cp)) \<and>
              CompareLocation X (location (savedPoint b)) (location (flushedPoint b)) (enableGTID b) > 0} \<and>
         globalPoint_s snap =
           (if outOfDate X (globalPoint cp) \<or> globalPointSaveTime cp = None \<or>
               (f \<and> needFlushSafeModeExitPoint cp)
            then Some (savedPoint (globalPoint cp)) else None))) \<and>
   (sint (snapshotSeq cp) + int (length calls) < 2 ^ 63 \<longrightarrow>
      sorted_wrt (\<lambda>a b. a <s b) (map fst (snapshotRun X cp calls)) \<and>
      (\<forall>i info. (i, Some info) \<in> set (snapshotRun X cp calls) \<longrightarrow> id_i info = i))"
proof -
  let ?q = "\<exists>e \<in> set (entries (points cp)). outOfDate X (snd (snd e))"
  let ?g = "outOfDate X (globalPoint cp) \<or> globalPointSaveTime cp = None \<or>
         (f \<and> needFlushSafeModeExitPoint cp)"
  have ood: "outOfDate X b =
      (CompareLocation X (location (savedPoint b)) (location (flushedPoint b)) (enableGTID b) > 0)" for b
    by (simp add: outOfDate_def outOfDateBy_def)
  have 1: "snapshotSeq (snd (Snapshot X cp f nowG now)) = snapshotSeq cp + 1"
    by (rule Snapshot_seq)
  have 2: "points (snd (Snapshot X cp f nowG now)) = points cp"
    "globalPoint (snd (Snapshot X cp f nowG now)) = globalPoint cp"
    by (simp_all add: Snapshot_def Let_def)
  have 3: "\<not> ?q \<and> \<not> ?g \<longrightarrow>
      fst (Snapshot X cp f nowG now) = None \<and>
      snapshots (snd (Snapshot X cp f nowG now)) = snapshots cp"
    using Snapshot_nil [of cp X f nowG now] by auto
  have 4: "?q \<or> ?g \<longrightarrow>
      fst (Snapshot X cp f nowG now) =
        Some \<lparr>id_i = snapshotSeq cp + 1, globalPos = location (savedPoint (globalPoint cp))\<rparr> \<and>
      (\<exists>snap. snapshots (snd (Snapshot X cp f nowG now)) = snapshots cp @ [snap] \<and>
         id_s snap = snapshotSeq cp + 1 \<and>
         set (entries (points_s snap)) =
           {(s, t, savedPoint b) |s t b. (s, t, b) \<in> set (entries (points cp)) \<and>
              CompareLocation X (location (savedPoint b)) (location (flushedPoint b)) (enableGTID b) > 0} \<and>
         globalPoint_s snap = (if ?g then Some (savedPoint (globalPoint cp)) else None))"
  proof
    assume "?q \<or> ?g"
    note S = Snapshot_some [OF this, of nowG now]
    show "fst (Snapshot X cp f nowG now) =
        Some \<lparr>id_i = snapshotSeq cp + 1, globalPos = location (savedPoint (globalPoint cp))\<rparr> \<and>
      (\<exists>snap. snapshots (snd (Snapshot X cp f nowG now)) = snapshots cp @ [snap] \<and>
         id_s snap = snapshotSeq cp + 1 \<and>
         set (entries (points_s snap)) =
           {(s, t, savedPoint b) |s t b. (s, t, b) \<in> set (entries (points cp)) \<and>
              CompareLocation X (location (savedPoint b)) (location (flushedPoint b)) (enableGTID b) > 0} \<and>
         globalPoint_s snap = (if ?g then Some (savedPoint (globalPoint cp)) else None))"
      unfolding S by (simp add: set_entries_snapshotTables ood)
  qed
  have 5: "sint (snapshotSeq cp) + int (length calls) < 2 ^ 63 \<longrightarrow>
      sorted_wrt (\<lambda>a b. a <s b) (map fst (snapshotRun X cp calls)) \<and>
      (\<forall>i info. (i, Some info) \<in> set (snapshotRun X cp calls) \<longrightarrow> id_i info = i)"
    using snapshotRun_ids [of cp calls X] snapshotRun_info_ids [of _ _ X cp calls] by blast
  from 1 2 3 4 5 show ?thesis by blast
qed

theorem Snapshot_contents_and_ids_witness:
  "Snapshot positionExt cpT False 100 101 = (Some \<lparr>id_i = 1, globalPos = fresh\<rparr>, cpSnap) \<and>
   set (entries (points_s snap1)) = {(''db'', ''t'', \<lparr>location = binlogAt 10, ti = None\<rparr>)} \<and>
   fst (Snapshot positionExt cpQuiet True 100 101) = None \<and>
   snapshots (snd (Snapshot positionExt cpQuiet True 100 101)) = [] \<and>
   map fst (snapshotRun positionExt cpT [(False, 1, 1), (True, 2, 2), (False, 3, 3)]) = [1, 2, 3] \<and>
   sorted_wrt (\<lambda>a b. a <s b) (map fst (snapshotRun positionExt cpT [(False, 1, 1), (True, 2, 2), (False, 3, 3)]))"
proof -
  have t: "points cpT = [(''db'', [(''t'', newBinlogPoint (binlogAt 10) fresh None None False)])]"
    "globalPoint cpT = newBinlogPoint fresh fresh None None False"
    "globalPointSaveTime cpT = None" "snapshotSeq cpT = 0" "snapshots cpT = []"
    by (simp_all add: cpT_def cp0_simps)
  have q: "points cpQuiet = []" "globalPoint cpQuiet = newBinlogPoint fresh fresh None None False"
    "globalPointSaveTime cpQuiet = Some 50" "needFlushSafeModeExitPoint cpQuiet = False"
    "snapshots cpQuiet = []"
    by (simp_all add: cpQuiet_def cp0_simps)
  have ood: "outOfDate positionExt (newBinlogPoint (binlogAt 10) fresh None None False)"
    "\<not> outOfDate positionExt (newBinlogPoint fresh fresh None None False)"
    by (simp_all add: outOfDate_def outOfDateBy_def newBinlogPoint_def)
  have 1: "Snapshot positionExt cpT False 100 101 = (Some \<lparr>id_i = 1, globalPos = fresh\<rparr>, cpSnap)"
    by (simp add: Snapshot_def Let_def snapshotTables_def t ood [unfolded newBinlogPoint_def]
        cpSnap_def snap1_def newBinlogPoint_def)
  note T = Snapshot_contents_and_ids [where X = positionExt and cp = cpT and f = False and nowG = 100
      and now = 101 and calls = "[(False, 1, 1), (True, 2, 2), (False, 3, 3)]"]
  from T 1 have 2: "set (entries (points_s snap1)) =
      {(s, t, savedPoint b) |s t b. (s, t, b) \<in> set (entries (points cpT)) \<and>
         CompareLocation positionExt (location (savedPoint b)) (location (flushedPoint b)) (enableGTID b) > 0}"
    by (simp add: t cpSnap_def)
  have 3: "set (entries (points_s snap1)) = {(''db'', ''t'', \<lparr>location = binlogAt 10, ti = None\<rparr>)}"
    unfolding 2 by (auto simp: t entries_def newBinlogPoint_def)
  note Q = Snapshot_contents_and_ids [where X = positionExt and cp = cpQuiet and f = True and nowG = 100
      and now = 101 and calls = "[]"]
  from Q have 4: "fst (Snapshot positionExt cpQuiet True 100 101) = None"
    "snapshots (snd (Snapshot positionExt cpQuiet True 100 101)) = []"
    by (simp_all add: q ood)
  from T have 5: "sorted_wrt (\<lambda>a b. a <s b)
      (map fst (snapshotRun positionExt cpT [(False, 1, 1), (True, 2, 2), (False, 3, 3)]))"
    by (simp add: t del: snapshotRun.simps)
  have 6: "map fst (snapshotRun positionExt cpT [(False, 1, 1), (True, 2, 2), (False, 3, 3)]) = [1, 2, 3]"
    by (simp add: snapshotRun_Cons Snapshot_seq t del: snapshotRun.simps(2))
  from 1 3 4 5 6 show ?thesis by blast
qed

section \<open>Flushing a snapshot\<close>





lemma keyed_fst: "map fst (keyed es) = map (\<lambda>e. (fst e, fst (snd e))) es"
  by (simp add: keyed_def)





lemma flushBy_twice: "flushBy (flushBy b tp) tp' = flushBy b tp'"
  by (simp add: flushBy_def)





















end
